theory Spec2Isabelle
  imports Main "HOL-Library.Word"
begin

unbundle bit_operations_syntax

section \<open>Password hashing (app/crud.py, lines 7-13)\<close>

text \<open>
  \<^verbatim>\<open>hash_password\<close> is \<^verbatim>\<open>hashlib.sha256(password.encode()).hexdigest()\<close>.
  A Python \<^verbatim>\<open>str\<close> is modelled by the \<open>string\<close> of its UTF-8 bytes, so that
  \<^verbatim>\<open>encode()\<close> only changes the type of the elements and equality of strings is
  equality of byte sequences. SHA-256 follows FIPS 180-4: 32-bit words, the padding to a
  multiple of 64 bytes, the message schedule of 64 words and the 64 rounds per block. The
  schedule is computed along the rounds, on a window of sixteen words.
\<close>

type_synonym u8 = "8 word"
type_synonym u32 = "32 word"

definition rotr :: "nat \<Rightarrow> u32 \<Rightarrow> u32" where
  "rotr n x = drop_bit n x OR push_bit (32 - n) x"

definition ch :: "u32 \<Rightarrow> u32 \<Rightarrow> u32 \<Rightarrow> u32" where
  "ch x y z = (x AND y) XOR (NOT x AND z)"

definition maj :: "u32 \<Rightarrow> u32 \<Rightarrow> u32 \<Rightarrow> u32" where
  "maj x y z = (x AND y) XOR (x AND z) XOR (y AND z)"

definition bsig0 :: "u32 \<Rightarrow> u32" where
  "bsig0 x = rotr 2 x XOR rotr 13 x XOR rotr 22 x"

definition bsig1 :: "u32 \<Rightarrow> u32" where
  "bsig1 x = rotr 6 x XOR rotr 11 x XOR rotr 25 x"

definition ssig0 :: "u32 \<Rightarrow> u32" where
  "ssig0 x = rotr 7 x XOR rotr 18 x XOR drop_bit 3 x"

definition ssig1 :: "u32 \<Rightarrow> u32" where
  "ssig1 x = rotr 17 x XOR rotr 19 x XOR drop_bit 10 x"

text \<open>The round constants, eight to a row.\<close>

definition sha256_k :: "u32 list" where
  "sha256_k =
     [0x428a2f98, 0x71374491, 0xb5c0fbcf, 0xe9b5dba5, 0x3956c25b, 0x59f111f1, 0x923f82a4, 0xab1c5ed5] @
     [0xd807aa98, 0x12835b01, 0x243185be, 0x550c7dc3, 0x72be5d74, 0x80deb1fe, 0x9bdc06a7, 0xc19bf174] @
     [0xe49b69c1, 0xefbe4786, 0x0fc19dc6, 0x240ca1cc, 0x2de92c6f, 0x4a7484aa, 0x5cb0a9dc, 0x76f988da] @
     [0x983e5152, 0xa831c66d, 0xb00327c8, 0xbf597fc7, 0xc6e00bf3, 0xd5a79147, 0x06ca6351, 0x14292967] @
     [0x27b70a85, 0x2e1b2138, 0x4d2c6dfc, 0x53380d13, 0x650a7354, 0x766a0abb, 0x81c2c92e, 0x92722c85] @
     [0xa2bfe8a1, 0xa81a664b, 0xc24b8b70, 0xc76c51a3, 0xd192e819, 0xd6990624, 0xf40e3585, 0x106aa070] @
     [0x19a4c116, 0x1e376c08, 0x2748774c, 0x34b0bcb5, 0x391c0cb3, 0x4ed8aa4a, 0x5b9cca4f, 0x682e6ff3] @
     [0x748f82ee, 0x78a5636f, 0x84c87814, 0x8cc70208, 0x90befffa, 0xa4506ceb, 0xbef9a3f7, 0xc67178f2]"

datatype hstate = HState u32 u32 u32 u32 u32 u32 u32 u32

definition sha256_init :: hstate where
  "sha256_init = HState 0x6a09e667 0xbb67ae85 0x3c6ef372 0xa54ff53a
                        0x510e527f 0x9b05688c 0x1f83d9ab 0x5be0cd19"

definition be64 :: "nat \<Rightarrow> u8 list" where
  "be64 n = map (\<lambda>i. of_nat (n div 2 ^ (8 * i))) [7, 6, 5, 4, 3, 2, 1, 0]"

definition sha256_pad :: "u8 list \<Rightarrow> u8 list" where
  "sha256_pad bs =
     bs @ [0x80] @ replicate ((119 - length bs mod 64) mod 64) 0 @ be64 (8 * length bs)"

definition be32 :: "u8 \<Rightarrow> u8 \<Rightarrow> u8 \<Rightarrow> u8 \<Rightarrow> u32" where
  "be32 a b c d = push_bit 24 (ucast a) OR push_bit 16 (ucast b) OR push_bit 8 (ucast c) OR ucast d"

fun words_of :: "u8 list \<Rightarrow> u32 list" where
  "words_of (a # b # c # d # bs) = be32 a b c d # words_of bs"
| "words_of _ = []"

fun round_out :: "u32 \<Rightarrow> u32 \<Rightarrow> hstate \<Rightarrow> hstate" where
  "round_out t1 t2 (HState a b c d e f g h) = HState (t1 + t2) a b c (d + t1) e f g"

fun round_step :: "hstate \<Rightarrow> u32 \<Rightarrow> u32 \<Rightarrow> hstate" where
  "round_step (HState a b c d e f g h) k w =
     round_out (h + bsig1 e + ch e f g + k + w) (bsig0 a + maj a b c) (HState a b c d e f g h)"

text \<open>One round on a window of the message schedule: the window holds the sixteen
  words \<open>W\<^sub>t, \<dots>, W\<^sub>t\<^sub>+\<^sub>1\<^sub>5\<close>; the round uses \<open>W\<^sub>t\<close> and the window moves on by
  \<open>W\<^sub>t\<^sub>+\<^sub>1\<^sub>6 = \<sigma>\<^sub>1(W\<^sub>t\<^sub>+\<^sub>1\<^sub>4) + W\<^sub>t\<^sub>+\<^sub>9 + \<sigma>\<^sub>0(W\<^sub>t\<^sub>+\<^sub>1) + W\<^sub>t\<close>.\<close>

fun round1 :: "u32 \<Rightarrow> u32 list \<times> hstate \<Rightarrow> u32 list \<times> hstate" where
  "round1 k ([w0, w1, w2, w3, w4, w5, w6, w7, w8, w9, w10, w11, w12, w13, w14, w15], st) =
     ([w1, w2, w3, w4, w5, w6, w7, w8, w9, w10, w11, w12, w13, w14, w15,
       ssig1 w14 + w9 + ssig0 w1 + w0], round_step st k w0)"
| "round1 k x = x"

fun add_state :: "hstate \<Rightarrow> hstate \<Rightarrow> hstate" where
  "add_state (HState a b c d e f g h) (HState a' b' c' d' e' f' g' h') =
     HState (a + a') (b + b') (c + c') (d + d') (e + e') (f + f') (g + g') (h + h')"

definition compress :: "hstate \<Rightarrow> u32 list \<Rightarrow> hstate" where
  "compress st block = add_state st (snd (fold round1 sha256_k (block, st)))"

fun blocks :: "nat \<Rightarrow> u32 list \<Rightarrow> hstate \<Rightarrow> hstate" where
  "blocks 0 ws st = st"
| "blocks (Suc n) ws st = blocks n (drop 16 ws) (compress st (take 16 ws))"

definition sha256 :: "u8 list \<Rightarrow> hstate" where
  "sha256 bs = (let ws = words_of (sha256_pad bs) in blocks (length ws div 16) ws sha256_init)"

definition hex_digit :: "nat \<Rightarrow> char" where
  "hex_digit n = ''0123456789abcdef'' ! (n mod 16)"

definition hex_byte :: "nat \<Rightarrow> string" where
  "hex_byte n = [hex_digit (n div 16), hex_digit n]"

definition hex_word :: "u32 \<Rightarrow> string" where
  "hex_word w = concat (map (\<lambda>i. hex_byte (unat (drop_bit (8 * i) w) mod 256)) [3, 2, 1, 0])"

fun hexdigest :: "hstate \<Rightarrow> string" where
  "hexdigest (HState a b c d e f g h) = concat (map hex_word [a, b, c, d, e, f, g, h])"

definition encode :: "string \<Rightarrow> u8 list" where
  "encode s = map (\<lambda>c. of_nat (of_char c)) s"

definition hash_password :: "string \<Rightarrow> string" where
  "hash_password password = hexdigest (sha256 (encode password))"

definition verify_password :: "string \<Rightarrow> string \<Rightarrow> bool" where
  "verify_password plain_password hashed = (hash_password plain_password = hashed)"

section \<open>The users table and the request schemas\<close>

text \<open>
  Modelled from the spec: the table declaration \<^verbatim>\<open>app/models.py\<close> (class
  \<^verbatim>\<open>User\<close>) is not among the sources. Its columns are those of the data model of
  the specification, confirmed by \<^verbatim>\<open>tests/test_models.py\<close>: an integer primary key
  assigned by the store, a unique and required \<^verbatim>\<open>email\<close>, a required
  \<^verbatim>\<open>hashed_password\<close>, \<^verbatim>\<open>is_active\<close> defaulting to true,
  \<^verbatim>\<open>created_at\<close> set by the store at insertion and \<^verbatim>\<open>updated_at\<close>, absent
  until the first UPDATE statement and set by each one. The data model types
  \<^verbatim>\<open>is_active\<close> as a boolean, where it types \<^verbatim>\<open>updated_at\<close> as a timestamp or
  absent: a row always holds a boolean there, and the store refuses \<^verbatim>\<open>NULL\<close> for it
  as it does for the two required columns. Timestamps are points of a discrete clock; the
  time of a write is an argument \<open>now\<close> of the operation.
\<close>

record user =
  user_id :: int
  email :: string
  hashed_password :: string
  is_active :: bool
  created_at :: nat
  updated_at :: "nat option"

text \<open>The table: its rows in rowid order, which is the order a query without ORDER BY
  scans them in.\<close>

type_synonym db = "user list"

datatype error = IntegrityError | AttributeError

text \<open>\<^verbatim>\<open>schemas.UserCreate\<close>: both fields are required.\<close>

record user_create =
  uc_email :: string
  uc_password :: string

text \<open>
  \<^verbatim>\<open>schemas.UserUpdate\<close>: every field is optional with default \<^verbatim>\<open>None\<close>.
  \<^verbatim>\<open>model_dump(exclude_unset=True)\<close> keeps the fields the request has set, also
  those set to \<^verbatim>\<open>null\<close>, so each of the three fields has three states: not set
  (\<open>Unset\<close>), set to \<^verbatim>\<open>null\<close> (\<open>Null\<close>) and set to a value (\<open>Val\<close>).
\<close>

datatype 'a field = Unset | Null | Val 'a

record user_update =
  upd_email :: "string field"
  upd_password :: "string field"
  upd_is_active :: "bool field"

text \<open>
  The dictionary \<^verbatim>\<open>update_data\<close> of \<^verbatim>\<open>crud.update_user\<close>. Its keys are among
  \<^verbatim>\<open>email\<close>, \<^verbatim>\<open>password\<close>, \<^verbatim>\<open>hashed_password\<close> and
  \<^verbatim>\<open>is_active\<close>; \<open>Unset\<close> says that the key is not in the dictionary,
  \<open>Null\<close> that it is there with the value \<^verbatim>\<open>None\<close>.
\<close>

record update_data =
  d_email :: "string field"
  d_password :: "string field"
  d_hashed_password :: "string field"
  d_is_active :: "bool field"

section \<open>The store operations of the session\<close>

definition next_id :: "db \<Rightarrow> int" where
  "next_id db = fold max (map user_id db) 0 + 1"

text \<open>\<^verbatim>\<open>db.add(db_user); db.commit(); db.refresh(db_user)\<close>: the INSERT fails on
  the unique index of \<^verbatim>\<open>email\<close>; otherwise the store assigns the id and
  \<^verbatim>\<open>created_at\<close>, and the defaults give \<^verbatim>\<open>is_active\<close> and \<^verbatim>\<open>updated_at\<close>.\<close>

definition insert_user :: "db \<Rightarrow> string \<Rightarrow> string \<Rightarrow> nat \<Rightarrow> error + user \<times> db" where
  "insert_user db e h now =
     (if e \<in> set (map email db) then Inl IntegrityError
      else let row = \<lparr>user_id = next_id db, email = e, hashed_password = h, is_active = True,
                       created_at = now, updated_at = None\<rparr>
           in Inr (row, db @ [row]))"

definition field_or :: "'a \<Rightarrow> 'a field \<Rightarrow> 'a" where
  "field_or old f = (case f of Val v \<Rightarrow> v | _ \<Rightarrow> old)"

definition setattrs :: "user \<Rightarrow> update_data \<Rightarrow> user" where
  "setattrs u d =
     u\<lparr>email := field_or (email u) (d_email d),
       hashed_password := field_or (hashed_password u) (d_hashed_password d),
       is_active := field_or (is_active u) (d_is_active d)\<rparr>"

text \<open>
  The loop of \<^verbatim>\<open>setattr\<close> calls followed by \<^verbatim>\<open>db.commit(); db.refresh(db_user)\<close>.
  The session writes an UPDATE only when an attribute has a net change: without one the
  row, \<^verbatim>\<open>updated_at\<close> included, stays as it is. The UPDATE fails on \<^verbatim>\<open>NULL\<close> for
  \<^verbatim>\<open>email\<close>, \<^verbatim>\<open>hashed_password\<close> or \<^verbatim>\<open>is_active\<close> and on the unique
  index of \<^verbatim>\<open>email\<close>; a failed commit leaves the table as it was.
\<close>

definition commit_update :: "db \<Rightarrow> user \<Rightarrow> update_data \<Rightarrow> nat \<Rightarrow> error + user \<times> db" where
  "commit_update db old d now =
     (if d_email d = Null \<or> d_hashed_password d = Null \<or> d_is_active d = Null
      then Inl IntegrityError
      else let new = setattrs old d
           in if new = old then Inr (old, db)
              else if email new \<in> set (map email (filter (\<lambda>u. user_id u \<noteq> user_id old) db))
                   then Inl IntegrityError
              else let row = new\<lparr>updated_at := Some now\<rparr>
                   in Inr (row, map (\<lambda>u. if user_id u = user_id old then row else u) db))"

section \<open>User CRUD operations (app/crud.py)\<close>

definition get_user_by_id :: "db \<Rightarrow> int \<Rightarrow> user option" where
  "get_user_by_id db uid = find (\<lambda>u. user_id u = uid) db"

definition get_user_by_email :: "db \<Rightarrow> string \<Rightarrow> user option" where
  "get_user_by_email db e = find (\<lambda>u. email u = e) db"

text \<open>\<^verbatim>\<open>offset(skip).limit(limit)\<close> on SQLite, the default engine of
  \<^verbatim>\<open>app/database.py\<close>: a negative offset counts as 0, a negative limit as no limit.\<close>

definition get_users :: "db \<Rightarrow> int \<Rightarrow> int \<Rightarrow> user list" where
  "get_users db skip limit =
     (let rest = drop (nat skip) db in if limit < 0 then rest else take (nat limit) rest)"

definition get_users_count :: "db \<Rightarrow> nat" where
  "get_users_count db = length db"

definition create_user :: "db \<Rightarrow> user_create \<Rightarrow> nat \<Rightarrow> error + user \<times> db" where
  "create_user db uc now =
     (let hashed = hash_password (uc_password uc)
      in insert_user db (uc_email uc) hashed now)"

definition model_dump :: "user_update \<Rightarrow> update_data" where
  "model_dump upd =
     \<lparr>d_email = upd_email upd, d_password = upd_password upd, d_hashed_password = Unset,
      d_is_active = upd_is_active upd\<rparr>"

text \<open>Lines 53-54: \<^verbatim>\<open>hash_password(None)\<close> raises \<^verbatim>\<open>AttributeError\<close>, since
  \<^verbatim>\<open>None\<close> has no \<^verbatim>\<open>encode\<close>.\<close>

definition hash_update_data :: "update_data \<Rightarrow> error + update_data" where
  "hash_update_data d =
     (case d_password d of
        Unset \<Rightarrow> Inr d
      | Null \<Rightarrow> Inl AttributeError
      | Val p \<Rightarrow> Inr (d\<lparr>d_password := Unset, d_hashed_password := Val (hash_password p)\<rparr>))"

definition update_user :: "db \<Rightarrow> int \<Rightarrow> user_update \<Rightarrow> nat \<Rightarrow> error + user option \<times> db" where
  "update_user db uid upd now =
     (case get_user_by_id db uid of
        None \<Rightarrow> Inr (None, db)
      | Some db_user \<Rightarrow>
          (case hash_update_data (model_dump upd) of
             Inl e \<Rightarrow> Inl e
           | Inr d \<Rightarrow>
               (case commit_update db db_user d now of
                  Inl e \<Rightarrow> Inl e
                | Inr (row, db') \<Rightarrow> Inr (Some row, db'))))"

definition delete_user :: "db \<Rightarrow> int \<Rightarrow> bool \<times> db" where
  "delete_user db uid =
     (case get_user_by_id db uid of
        None \<Rightarrow> (False, db)
      | Some db_user \<Rightarrow> (True, filter (\<lambda>u. user_id u \<noteq> user_id db_user) db))"

definition authenticate_user :: "db \<Rightarrow> string \<Rightarrow> string \<Rightarrow> user option" where
  "authenticate_user db e password =
     (case get_user_by_email db e of
        None \<Rightarrow> None
      | Some u \<Rightarrow> if \<not> verify_password password (hashed_password u) then None else Some u)"

section \<open>The HTTP surface (app/main.py)\<close>

text \<open>A response is a status code and a JSON body. A \<^verbatim>\<open>datetime\<close> is written as the
  clock value it stands for.\<close>

datatype json =
    JNull
  | JBool bool
  | JInt int
  | JStr string
  | JTime nat
  | JList "json list"
  | JObj "(string \<times> json) list"

record response =
  status_code :: nat
  body :: json

definition http_exception :: "nat \<Rightarrow> string \<Rightarrow> response" where
  "http_exception code detail = \<lparr>status_code = code, body = JObj [(''detail'', JStr detail)]\<rparr>"

text \<open>An exception no handler catches leaves the application as a 500 response.\<close>

definition server_error :: response where
  "server_error = \<lparr>status_code = 500, body = JStr ''Internal Server Error''\<rparr>"

text \<open>A query parameter outside its declared bounds is answered with 422 before the
  handler runs; the list of violations in the body is not modelled.\<close>

definition validation_error :: response where
  "validation_error = \<lparr>status_code = 422, body = JNull\<rparr>"

text \<open>\<^verbatim>\<open>schemas.User\<close> (lines 20-26), the \<^verbatim>\<open>response_model\<close> of the user
  endpoints: the fields of \<^verbatim>\<open>UserBase\<close> followed by its own, read from the
  attributes of the row.\<close>

definition user_json :: "user \<Rightarrow> json" where
  "user_json u =
     JObj [(''email'', JStr (email u)),
           (''id'', JInt (user_id u)),
           (''is_active'', JBool (is_active u)),
           (''created_at'', JTime (created_at u)),
           (''updated_at'', (case updated_at u of None \<Rightarrow> JNull | Some t \<Rightarrow> JTime t))]"

fun keys :: "json \<Rightarrow> string list" where
  "keys (JObj kvs) = map fst kvs"
| "keys _ = []"

fun str_nat :: "nat \<Rightarrow> string" where
  "str_nat n =
     (if n < 10 then [''0123456789'' ! n]
      else str_nat (n div 10) @ [''0123456789'' ! (n mod 10)])"

definition api_create_user :: "db \<Rightarrow> user_create \<Rightarrow> nat \<Rightarrow> response \<times> db" where
  "api_create_user db uc now =
     (case get_user_by_email db (uc_email uc) of
        Some db_user \<Rightarrow> (http_exception 400 ''Email already registered'', db)
      | None \<Rightarrow>
          (case create_user db uc now of
             Inl e \<Rightarrow> (server_error, db)
           | Inr (row, db') \<Rightarrow> (\<lparr>status_code = 201, body = user_json row\<rparr>, db')))"

definition api_get_users :: "db \<Rightarrow> int \<Rightarrow> int \<Rightarrow> response" where
  "api_get_users db skip limit =
     (if skip < 0 \<or> limit < 1 \<or> 1000 < limit then validation_error
      else let users = get_users db skip limit;
               total = get_users_count db
           in \<lparr>status_code = 200,
               body = JObj [(''message'', JStr (''Retrieved '' @ str_nat (length users) @ '' users'')),
                            (''users'', JList (map user_json users)),
                            (''total'', JInt (int total))]\<rparr>)"

definition api_get_user :: "db \<Rightarrow> int \<Rightarrow> response" where
  "api_get_user db uid =
     (case get_user_by_id db uid of
        None \<Rightarrow> http_exception 404 ''User not found''
      | Some db_user \<Rightarrow> \<lparr>status_code = 200, body = user_json db_user\<rparr>)"

text \<open>Line 80: \<^verbatim>\<open>if user_update.email:\<close> is false for an unset field, for
  \<^verbatim>\<open>None\<close> and for the empty string.\<close>

definition email_given :: "string field \<Rightarrow> string option" where
  "email_given f = (case f of Val e \<Rightarrow> if e = [] then None else Some e | _ \<Rightarrow> None)"

definition api_update_user :: "db \<Rightarrow> int \<Rightarrow> user_update \<Rightarrow> nat \<Rightarrow> response \<times> db" where
  "api_update_user db uid upd now =
     (let taken =
        (case email_given (upd_email upd) of
           None \<Rightarrow> False
         | Some e \<Rightarrow>
             (case get_user_by_email db e of
                None \<Rightarrow> False
              | Some existing_user \<Rightarrow> user_id existing_user \<noteq> uid))
      in if taken then (http_exception 400 ''Email already registered by another user'', db)
         else (case update_user db uid upd now of
                 Inl e \<Rightarrow> (server_error, db)
               | Inr (None, db') \<Rightarrow> (http_exception 404 ''User not found'', db')
               | Inr (Some db_user, db') \<Rightarrow>
                   (\<lparr>status_code = 200, body = user_json db_user\<rparr>, db')))"

definition api_delete_user :: "db \<Rightarrow> int \<Rightarrow> response \<times> db" where
  "api_delete_user db uid =
     (case delete_user db uid of
        (False, db') \<Rightarrow> (http_exception 404 ''User not found'', db')
      | (True, db') \<Rightarrow>
          (\<lparr>status_code = 200, body = JObj [(''message'', JStr ''User deleted successfully'')]\<rparr>, db'))"

definition login :: "db \<Rightarrow> user_create \<Rightarrow> response" where
  "login db user_credentials =
     (case authenticate_user db (uc_email user_credentials) (uc_password user_credentials) of
        None \<Rightarrow> http_exception 401 ''Incorrect email or password''
      | Some u \<Rightarrow>
          if \<not> is_active u then http_exception 400 ''Inactive user''
          else \<lparr>status_code = 200,
                body = JObj [(''message'', JStr ''Login successful''),
                             (''user_id'', JInt (user_id u)),
                             (''email'', JStr (email u))]\<rparr>)"

definition api_get_user_by_email :: "db \<Rightarrow> string \<Rightarrow> response" where
  "api_get_user_by_email db e =
     (case get_user_by_email db e of
        None \<Rightarrow> http_exception 404 ''User not found''
      | Some db_user \<Rightarrow> \<lparr>status_code = 200, body = user_json db_user\<rparr>)"

section \<open>The invariant of the table\<close>

text \<open>The primary key grows along the rows, so ids are pairwise different and rowid
  order is insertion order; the unique index keeps emails pairwise different.\<close>

definition wf_db :: "db \<Rightarrow> bool" where
  "wf_db db = (sorted_wrt (<) (map user_id db) \<and> distinct (map email db))"

section \<open>Sample data\<close>

text \<open>A table of three users. The first holds the placeholder hash that
  \<^verbatim>\<open>tests/test_models.py\<close> inserts, which no password verifies against; the second
  was deactivated by an update at time 6; the third is active.\<close>

definition db0 :: db where
  "db0 = [\<lparr>user_id = 1, email = ''a@x.com'', hashed_password = ''hashedpassword123'',
            is_active = True, created_at = 3, updated_at = None\<rparr>,
          \<lparr>user_id = 2, email = ''b@x.com'', hashed_password = hash_password ''p2'',
            is_active = False, created_at = 4, updated_at = Some 6\<rparr>,
          \<lparr>user_id = 3, email = ''c@x.com'', hashed_password = hash_password ''p3'',
            is_active = True, created_at = 5, updated_at = None\<rparr>]"

text \<open>A registration, the row a store creates for it at time 3 when the table is
  empty, and a second registration with the same email.\<close>

definition uc_a :: user_create where
  "uc_a = \<lparr>uc_email = ''a@x.com'', uc_password = ''p1''\<rparr>"

definition row_a :: user where
  "row_a = \<lparr>user_id = 1, email = ''a@x.com'', hashed_password = hash_password ''p1'',
             is_active = True, created_at = 3, updated_at = None\<rparr>"

definition uc_a2 :: user_create where
  "uc_a2 = \<lparr>uc_email = ''a@x.com'', uc_password = ''other''\<rparr>"

text \<open>Partial updates: an empty one, one that takes the email of the first user of
  \<open>db0\<close>, one that sets every field, one with explicit nulls, and one that
  deactivates.\<close>

definition upd_empty :: user_update where
  "upd_empty = \<lparr>upd_email = Unset, upd_password = Unset, upd_is_active = Unset\<rparr>"

definition upd_taken :: user_update where
  "upd_taken = \<lparr>upd_email = Val ''a@x.com'', upd_password = Unset, upd_is_active = Unset\<rparr>"


definition upd_null :: user_update where
  "upd_null = \<lparr>upd_email = Unset, upd_password = Null, upd_is_active = Null\<rparr>"

definition upd_off :: user_update where
  "upd_off = \<lparr>upd_email = Unset, upd_password = Unset, upd_is_active = Val False\<rparr>"

section \<open>Auxiliary facts\<close>

lemma length_hex_word: "length (hex_word w) = 8"
  by (simp add: hex_word_def hex_byte_def)

lemma length_hash_password: "length (hash_password p) = 64"
  by (cases "sha256 (encode p)") (simp add: hash_password_def length_hex_word)

lemma hex_digit_mem: "hex_digit n \<in> set ''0123456789abcdef''"
  unfolding hex_digit_def by (rule nth_mem) simp

lemma hex_word_chars: "set (hex_word w) \<subseteq> set ''0123456789abcdef''"
  using hex_digit_mem by (auto simp: hex_word_def hex_byte_def)

lemma hash_password_chars: "set (hash_password p) \<subseteq> set ''0123456789abcdef''"
  using hex_word_chars by (cases "sha256 (encode p)") (auto simp: hash_password_def)

lemma get_user_by_id_Some: "get_user_by_id db uid = Some u \<Longrightarrow> u \<in> set db \<and> user_id u = uid"
  by (auto simp: get_user_by_id_def find_Some_iff)

lemma get_user_by_id_None: "get_user_by_id db uid = None \<longleftrightarrow> uid \<notin> user_id ` set db"
  by (auto simp: get_user_by_id_def find_None_iff)

lemma get_user_by_email_Some: "get_user_by_email db e = Some u \<Longrightarrow> u \<in> set db \<and> email u = e"
  by (auto simp: get_user_by_email_def find_Some_iff)

lemma get_user_by_email_None: "get_user_by_email db e = None \<longleftrightarrow> e \<notin> email ` set db"
  by (auto simp: get_user_by_email_def find_None_iff)

lemma hash_password_neq: "length h \<noteq> 64 \<Longrightarrow> hash_password p \<noteq> h"
  using length_hash_password [of p] by auto

lemma fold_max_start: "(a::int) \<le> fold max xs a"
proof (induction xs arbitrary: a)
  case Nil
  show ?case by simp
next
  case (Cons x xs)
  have "a \<le> max x a" by simp
  also have "\<dots> \<le> fold max xs (max x a)" by (rule Cons.IH)
  finally show ?case by simp
qed

lemma fold_max_ge: "x \<in> set xs \<Longrightarrow> x \<le> fold max xs (a::int)"
proof (induction xs arbitrary: a)
  case Nil
  then show ?case by simp
next
  case (Cons y ys)
  show ?case
  proof (cases "x = y")
    case True
    have "x \<le> max y a" using True by simp
    also have "\<dots> \<le> fold max ys (max y a)" by (rule fold_max_start)
    finally show ?thesis by simp
  next
    case False
    then have "x \<in> set ys" using Cons.prems by simp
    then show ?thesis using Cons.IH by simp
  qed
qed

lemma next_id_fresh: "u \<in> set db \<Longrightarrow> user_id u < next_id db"
  using fold_max_ge [of "user_id u" "map user_id db" 0] by (simp add: next_id_def)

lemma wf_db_empty: "wf_db []"
  by (simp add: wf_db_def)

lemma wf_db_insert_user:
  assumes "wf_db db" and "insert_user db e h now = Inr (row, db')"
  shows "wf_db db'"
proof -
  from assms(2) have fresh: "e \<notin> set (map email db)"
    and row: "user_id row = next_id db" "email row = e" and db': "db' = db @ [row]"
    by (auto simp: insert_user_def Let_def split: if_splits)
  have "sorted_wrt (<) (map user_id db @ [next_id db])"
    using assms(1) next_id_fresh by (auto simp: wf_db_def sorted_wrt_append)
  then show ?thesis using assms(1) fresh row db' by (simp add: wf_db_def)
qed

lemma wf_db_delete_user: "wf_db db \<Longrightarrow> wf_db (snd (delete_user db uid))"
  by (auto simp: delete_user_def wf_db_def sorted_wrt_map sorted_wrt_filter distinct_map_filter
           split: option.splits)

lemma wf_db_distinct_ids: "wf_db db \<Longrightarrow> distinct (map user_id db)"
  by (simp add: wf_db_def strict_sorted_iff)

lemma pages_append: "take 2 db @ take 2 (drop 2 db) = take 4 db"
  using take_add [of 2 2 db] by simp


lemma setattrs_frame:
  "user_id (setattrs u d) = user_id u" "created_at (setattrs u d) = created_at u"
  "updated_at (setattrs u d) = updated_at u"
  by (simp_all add: setattrs_def)


text \<open>An explicit null: \<^verbatim>\<open>hash_password(None)\<close> raises before anything is written, and
  the store refuses a null in a column that has to hold a value.\<close>

lemma update_user_null_password:
  "get_user_by_id db uid = Some old \<Longrightarrow> upd_password upd = Null \<Longrightarrow>
   update_user db uid upd now = Inl AttributeError"
  by (simp add: update_user_def hash_update_data_def model_dump_def)

lemma update_user_null_column:
  "get_user_by_id db uid = Some old \<Longrightarrow> upd_password upd \<noteq> Null \<Longrightarrow>
   upd_email upd = Null \<or> upd_is_active upd = Null \<Longrightarrow>
   update_user db uid upd now = Inl IntegrityError"
  by (cases "upd_password upd")
     (auto simp: update_user_def hash_update_data_def model_dump_def commit_update_def)


lemma create_user_uc_a: "create_user [] uc_a 3 = Inr (row_a, [row_a])"
  by (simp add: create_user_def insert_user_def next_id_def uc_a_def row_a_def Let_def)

lemma wf_db0: "wf_db db0"
  by (simp add: wf_db_def db0_def)

lemma db0_ids:
  "get_user_by_id db0 1 = Some (db0 ! 0)" "get_user_by_id db0 2 = Some (db0 ! 1)"
  "get_user_by_id db0 3 = Some (db0 ! 2)" "get_user_by_id db0 999 = None"
  by (simp_all add: get_user_by_id_def db0_def)

lemma db0_emails:
  "get_user_by_email db0 ''a@x.com'' = Some (db0 ! 0)"
  "get_user_by_email db0 ''n@x.com'' = None"
  by (simp_all add: get_user_by_email_def db0_def)

lemma update_user_upd_null: "update_user db0 1 upd_null 9 = Inl AttributeError"
  by (simp add: update_user_null_password [of db0 1 "db0 ! 0"] db0_ids upd_null_def)

lemma keys_user_json:
  "keys (user_json u) = [''email'', ''id'', ''is_active'', ''created_at'', ''updated_at'']"
  by (simp add: user_json_def)

subsection \<open>The table invariant is kept by every write\<close>

lemma wf_db_commit_update:
  assumes wf: "wf_db db" and old: "old \<in> set db"
    and ok: "commit_update db old d now = Inr (row, db')"
  shows "wf_db db'"
proof (cases "setattrs old d = old")
  case True
  then show ?thesis using ok wf by (auto simp: commit_update_def Let_def split: if_splits)
next
  case False
  let ?f = "\<lambda>u. if user_id u = user_id old then row else u"
  from ok False have row: "row = (setattrs old d)\<lparr>updated_at := Some now\<rparr>"
    and db': "db' = map ?f db"
    and free: "email (setattrs old d) \<notin> set (map email (filter (\<lambda>u. user_id u \<noteq> user_id old) db))"
    by (auto simp: commit_update_def Let_def split: if_splits)
  have free': "email w \<noteq> email (setattrs old d)" if "w \<in> set db" "user_id w \<noteq> user_id old" for w
  proof
    assume "email w = email (setattrs old d)"
    then have "email (setattrs old d) \<in> email ` set (filter (\<lambda>u. user_id u \<noteq> user_id old) db)"
      using that by (simp add: image_iff) (metis)
    then show False using free by simp
  qed
  have id_row: "user_id row = user_id old" and em_row: "email row = email (setattrs old d)"
    by (simp_all add: row setattrs_frame)
  have ids: "map user_id db' = map user_id db"
    using id_row by (simp add: db')
  have inj_id: "inj_on user_id (set db)" and inj_em: "inj_on email (set db)"
    and dist: "distinct db"
    using wf by (simp_all add: wf_db_def strict_sorted_iff distinct_map)
  have "inj_on (\<lambda>u. email (?f u)) (set db)"
  proof (rule inj_onI)
    fix u v assume u: "u \<in> set db" and v: "v \<in> set db" and eq: "email (?f u) = email (?f v)"
    show "u = v"
    proof (cases "user_id u = user_id old")
      case True
      note tu = this
      show ?thesis
      proof (cases "user_id v = user_id old")
        case True
        then have "user_id u = user_id v" using tu by simp
        then show ?thesis using inj_id u v by (metis inj_onD)
      next
        case False
        then have "email v = email (setattrs old d)" using eq tu em_row by simp
        then show ?thesis using free' [OF v False] by simp
      qed
    next
      case False
      note fu = this
      show ?thesis
      proof (cases "user_id v = user_id old")
        case True
        then have "email u = email (setattrs old d)" using eq fu em_row by simp
        then show ?thesis using free' [OF u fu] by simp
      next
        case False
        then have "email u = email v" using fu eq by simp
        then show ?thesis using inj_em u v by (metis inj_onD)
      qed
    qed
  qed
  then have "distinct (map (\<lambda>u. email (?f u)) db)"
    using dist by (simp add: distinct_map)
  then have "distinct (map email db')" by (simp add: db' comp_def)
  then show ?thesis using wf ids by (simp add: wf_db_def)
qed

lemma wf_db_update_user:
  assumes "wf_db db" and "update_user db uid upd now = Inr (r, db')"
  shows "wf_db db'"
proof (cases "get_user_by_id db uid")
  case None
  then show ?thesis using assms by (simp add: update_user_def)
next
  case (Some old)
  then have "old \<in> set db" by (simp add: get_user_by_id_Some)
  then show ?thesis using assms Some
    by (auto simp: update_user_def split: sum.splits dest: wf_db_commit_update)
qed

lemma wf_db_create_user: "wf_db db \<Longrightarrow> create_user db uc now = Inr (row, db') \<Longrightarrow> wf_db db'"
  by (auto simp: create_user_def Let_def dest: wf_db_insert_user)

subsection \<open>Hashing and verification\<close>

text \<open>
  The digest is a function of the plaintext, 64 lowercase hexadecimal characters long,
  so it differs from every plaintext that is not itself such a string; verification is
  equality with the digest; a created user is found by its email with the digest of its
  password, against which the password verifies.
\<close>

lemma verify_password_iff: "verify_password plain hashed \<longleftrightarrow> hash_password plain = hashed"
  by (simp add: verify_password_def)

lemma hash_password_neq_plain:
  assumes "length p \<noteq> 64 \<or> \<not> set p \<subseteq> set ''0123456789abcdef''"
  shows "hash_password p \<noteq> p"
proof
  assume "hash_password p = p"
  then have "length p = 64" and "set p \<subseteq> set ''0123456789abcdef''"
    using length_hash_password [of p] hash_password_chars [of p] by simp_all
  then show False using assms by simp
qed

lemma find_append_None: "find P xs = None \<Longrightarrow> find P (xs @ ys) = find P ys"
  by (induction xs) (auto split: if_splits)

lemma create_user_then_find:
  assumes "create_user db uc now = Inr (row, db')"
  shows "get_user_by_email db' (uc_email uc) = Some row"
    and "hashed_password row = hash_password (uc_password uc)"
    and "verify_password (uc_password uc) (hashed_password row)"
proof -
  from assms have notin: "uc_email uc \<notin> set (map email db)"
    and row: "email row = uc_email uc" "hashed_password row = hash_password (uc_password uc)"
    and db': "db' = db @ [row]"
    by (auto simp: create_user_def insert_user_def Let_def split: if_splits)
  from notin have "find (\<lambda>u. email u = uc_email uc) db = None"
    by (auto simp: find_None_iff image_iff)
  then show "get_user_by_email db' (uc_email uc) = Some row"
    using row(1) db' by (simp add: get_user_by_email_def find_append_None)
  show "hashed_password row = hash_password (uc_password uc)" by (rule row(2))
  then show "verify_password (uc_password uc) (hashed_password row)"
    by (simp add: verify_password_def)
qed

section \<open>Authentication\<close>

text \<open>
  Claim C2. For every email and plaintext password, \<^verbatim>\<open>authenticate_user\<close> returns
  nothing when no user has that email or when the password does not verify against the
  stored hash, and otherwise returns the user record, whatever its \<^verbatim>\<open>is_active\<close>
  flag; \<^verbatim>\<open>POST /auth/login\<close> answers 401 when \<^verbatim>\<open>authenticate_user\<close> returns
  nothing and 400 when the authenticated user is inactive.
\<close>

theorem authenticate_user_spec:
  "(get_user_by_email db e = None \<longrightarrow> authenticate_user db e p = None)
   \<and> (\<forall>u. get_user_by_email db e = Some u \<and> \<not> verify_password p (hashed_password u)
          \<longrightarrow> authenticate_user db e p = None)
   \<and> (\<forall>u. get_user_by_email db e = Some u \<and> verify_password p (hashed_password u)
          \<longrightarrow> authenticate_user db e p = Some u)
   \<and> (authenticate_user db (uc_email c) (uc_password c) = None
          \<longrightarrow> status_code (login db c) = 401)
   \<and> (\<forall>u. authenticate_user db (uc_email c) (uc_password c) = Some u \<and> \<not> is_active u
          \<longrightarrow> status_code (login db c) = 400)"
  by (simp add: authenticate_user_def login_def http_exception_def)

theorem authenticate_user_spec_witness:
  "get_user_by_email db0 ''n@x.com'' = None \<and> authenticate_user db0 ''n@x.com'' ''p2'' = None
   \<and> get_user_by_email db0 ''a@x.com'' = Some (db0 ! 0)
   \<and> \<not> verify_password ''p1'' (hashed_password (db0 ! 0))
   \<and> authenticate_user db0 ''a@x.com'' ''p1'' = None
   \<and> get_user_by_email db0 ''b@x.com'' = Some (db0 ! 1)
   \<and> verify_password ''p2'' (hashed_password (db0 ! 1)) \<and> \<not> is_active (db0 ! 1)
   \<and> authenticate_user db0 ''b@x.com'' ''p2'' = Some (db0 ! 1)
   \<and> status_code (login db0 \<lparr>uc_email = ''a@x.com'', uc_password = ''p1''\<rparr>) = 401
   \<and> status_code (login db0 \<lparr>uc_email = ''b@x.com'', uc_password = ''p2''\<rparr>) = 400"
proof -
  have e0: "get_user_by_email db0 ''n@x.com'' = None"
    and e1: "get_user_by_email db0 ''a@x.com'' = Some (db0 ! 0)"
    and e2: "get_user_by_email db0 ''b@x.com'' = Some (db0 ! 1)"
    by (simp_all add: get_user_by_email_def db0_def)
  have v1: "\<not> verify_password ''p1'' (hashed_password (db0 ! 0))"
    by (simp add: verify_password_def db0_def hash_password_neq)
  have v2: "verify_password ''p2'' (hashed_password (db0 ! 1))" and i2: "\<not> is_active (db0 ! 1)"
    by (simp_all add: verify_password_def db0_def)
  show ?thesis
    using authenticate_user_spec [of db0 "''n@x.com''" "''p2''"]
      authenticate_user_spec [of db0 "''a@x.com''" "''p1''" "\<lparr>uc_email = ''a@x.com'', uc_password = ''p1''\<rparr>"]
      authenticate_user_spec [of db0 "''b@x.com''" "''p2''" "\<lparr>uc_email = ''b@x.com'', uc_password = ''p2''\<rparr>"]
      e0 e1 e2 v1 v2 i2
    by simp
qed

section \<open>Creating users\<close>

text \<open>
  Claim C3. After a user with some email has been created, a second create with the same
  email fails: \<^verbatim>\<open>crud.create_user\<close> with the store's integrity error
  (the unique-constraint violation), the endpoint \<^verbatim>\<open>POST /users/\<close> with 400
  \<^verbatim>\<open>Email already registered\<close>; the table is unchanged by the failed create and
  holds exactly one record with that email.
\<close>

theorem create_user_duplicate:
  "(create_user db uc now = Inr (row, db') \<and> uc_email uc2 = uc_email uc
      \<longrightarrow> create_user db' uc2 now2 = Inl IntegrityError
          \<and> api_create_user db' uc2 now2 = (http_exception 400 ''Email already registered'', db')
          \<and> length (filter (\<lambda>u. email u = uc_email uc) db') = 1)
   \<and> (api_create_user db uc now = (r, db') \<and> status_code r = 201 \<and> uc_email uc2 = uc_email uc
      \<longrightarrow> api_create_user db' uc2 now2 = (http_exception 400 ''Email already registered'', db')
          \<and> length (filter (\<lambda>u. email u = uc_email uc) db') = 1)"
proof -
  have crud: "create_user db' uc2 now2 = Inl IntegrityError
          \<and> api_create_user db' uc2 now2 = (http_exception 400 ''Email already registered'', db')
          \<and> length (filter (\<lambda>u. email u = uc_email uc) db') = 1"
    if ok: "create_user db uc now = Inr (row, db')" and same: "uc_email uc2 = uc_email uc"
    for row
  proof -
    from ok have notin: "uc_email uc \<notin> set (map email db)" and row: "email row = uc_email uc"
      and db': "db' = db @ [row]"
      by (auto simp: create_user_def insert_user_def Let_def split: if_splits)
    from notin have fresh: "\<forall>u\<in>set db. email u \<noteq> uc_email uc"
      by (auto simp: image_iff)
    from fresh have none: "filter (\<lambda>u. email u = uc_email uc) db = []"
      by (auto simp: filter_empty_conv)
    have mem: "uc_email uc \<in> email ` set db'" using row db' by force
    then obtain u where "get_user_by_email db' (uc_email uc) = Some u"
      using get_user_by_email_None [of db' "uc_email uc"] by (cases "get_user_by_email db' (uc_email uc)") auto
    then show ?thesis using mem none row db' same
      by (simp add: create_user_def insert_user_def api_create_user_def)
  qed
  have api: "\<exists>row. create_user db uc now = Inr (row, db')"
    if "api_create_user db uc now = (r, db')" and "status_code r = 201"
    using that
    by (auto simp: api_create_user_def http_exception_def server_error_def
             split: option.splits sum.splits)
  show ?thesis using crud api by blast
qed


theorem create_user_duplicate_witness:
  "create_user [] uc_a 3 = Inr (row_a, [row_a]) \<and> uc_email uc_a2 = uc_email uc_a
   \<and> create_user [row_a] uc_a2 4 = Inl IntegrityError
   \<and> api_create_user [] uc_a 3 = (\<lparr>status_code = 201, body = user_json row_a\<rparr>, [row_a])
   \<and> api_create_user [row_a] uc_a2 4 = (http_exception 400 ''Email already registered'', [row_a])
   \<and> length (filter (\<lambda>u. email u = uc_email uc_a) [row_a]) = 1"
proof -
  note ok = create_user_uc_a
  have api: "api_create_user [] uc_a 3 = (\<lparr>status_code = 201, body = user_json row_a\<rparr>, [row_a])"
    using ok by (simp add: api_create_user_def get_user_by_email_def)
  have same: "uc_email uc_a2 = uc_email uc_a"
    by (simp add: uc_a_def uc_a2_def)
  show ?thesis
    using create_user_duplicate [of "[]" uc_a 3 row_a "[row_a]" uc_a2 4] ok api same by simp
qed

section \<open>Updating users\<close>





text \<open>
  Claim C4, as stated, fails in its last part: an update with no field present writes
  nothing, so \<^verbatim>\<open>updated_at\<close> is not set. The first user of \<open>db0\<close> has never been
  updated, and after the empty update its \<^verbatim>\<open>updated_at\<close> is still absent.
\<close>

theorem update_user_empty_counterexample:
  "get_user_by_id db0 1 = Some (db0 ! 0)
   \<and> update_user db0 1 upd_empty 9 = Inr (Some (db0 ! 0), db0)
   \<and> updated_at (db0 ! 0) = None"
  by (simp add: db0_ids update_user_def model_dump_def hash_update_data_def commit_update_def
                setattrs_def field_or_def upd_empty_def)
     (simp add: db0_def)

text \<open>
  Claim C4, amended. For every existing user, an update with an empty partial field set
  returns the record as it was and leaves the table as it was: id, email,
  hashed_password, is_active, created_at and also \<^verbatim>\<open>updated_at\<close> are unchanged.
  \<^verbatim>\<open>updated_at\<close> is set by an update that changes the record: it is then the time
  of the write, which is at least \<^verbatim>\<open>created_at\<close> when the clock has not gone back
  behind the creation, and id and \<^verbatim>\<open>created_at\<close> are unchanged.
\<close>

theorem update_user_empty:
  "(get_user_by_id db uid = Some old \<longrightarrow>
      update_user db uid \<lparr>upd_email = Unset, upd_password = Unset, upd_is_active = Unset\<rparr> now
        = Inr (Some old, db))
   \<and> (get_user_by_id db uid = Some old \<and> update_user db uid upd now = Inr (Some row, db')
        \<and> row \<noteq> old \<longrightarrow>
      updated_at row = Some now \<and> created_at row = created_at old \<and> user_id row = user_id old
      \<and> (created_at old \<le> now \<longrightarrow> created_at row \<le> the (updated_at row)))"
proof -
  have empty: "update_user db uid \<lparr>upd_email = Unset, upd_password = Unset, upd_is_active = Unset\<rparr> now
        = Inr (Some old, db)" if "get_user_by_id db uid = Some old"
    using that
    by (simp add: update_user_def model_dump_def hash_update_data_def commit_update_def
                  setattrs_def field_or_def)
  have changed: "updated_at row = Some now \<and> created_at row = created_at old \<and> user_id row = user_id old"
    if "get_user_by_id db uid = Some old" and "update_user db uid upd now = Inr (Some row, db')"
      and "row \<noteq> old"
    using that
    by (auto simp: update_user_def commit_update_def Let_def setattrs_frame
             split: sum.splits if_splits)
  show ?thesis using empty changed by auto
qed


theorem update_user_empty_witness:
  "get_user_by_id db0 2 = Some (db0 ! 1)
   \<and> update_user db0 2 \<lparr>upd_email = Unset, upd_password = Unset, upd_is_active = Unset\<rparr> 9
        = Inr (Some (db0 ! 1), db0)
   \<and> update_user db0 1 upd_off 9
        = Inr (Some ((db0 ! 0)\<lparr>is_active := False, updated_at := Some 9\<rparr>),
               [(db0 ! 0)\<lparr>is_active := False, updated_at := Some 9\<rparr>, db0 ! 1, db0 ! 2])
   \<and> (db0 ! 0)\<lparr>is_active := False, updated_at := Some 9\<rparr> \<noteq> db0 ! 0
   \<and> created_at (db0 ! 0) \<le> 9
   \<and> updated_at ((db0 ! 0)\<lparr>is_active := False, updated_at := Some 9\<rparr>) = Some 9
   \<and> created_at ((db0 ! 0)\<lparr>is_active := False, updated_at := Some 9\<rparr>)
        \<le> the (updated_at ((db0 ! 0)\<lparr>is_active := False, updated_at := Some 9\<rparr>))"
proof -
  let ?row = "(db0 ! 0)\<lparr>is_active := False, updated_at := Some 9\<rparr>"
  have run: "update_user db0 1 upd_off 9 = Inr (Some ?row, [?row, db0 ! 1, db0 ! 2])"
    by (simp add: db0_ids update_user_def model_dump_def hash_update_data_def commit_update_def
                  setattrs_def field_or_def upd_off_def)
       (simp add: db0_def Let_def)
  have ne: "?row \<noteq> db0 ! 0" and le: "created_at (db0 ! 0) \<le> 9"
    by (simp_all add: db0_def)
  show ?thesis
    using update_user_empty [of db0 2 "db0 ! 1" 9]
      update_user_empty [of db0 1 "db0 ! 0" 9 upd_off ?row "[?row, db0 ! 1, db0 ! 2]"]
      db0_ids run ne le
    by simp
qed

text \<open>
  Claim C5, as stated, fails in its first part: \<^verbatim>\<open>PUT /users/{id}\<close> checks the
  email before it looks for the id. No user has id 999 in \<open>db0\<close>, the body carries the
  email of the first user, and the response is 400, not 404.
\<close>

theorem api_update_user_missing_id_counterexample:
  "get_user_by_id db0 999 = None
   \<and> api_update_user db0 999 upd_taken 9
       = (\<lparr>status_code = 400,
           body = JObj [(''detail'', JStr ''Email already registered by another user'')]\<rparr>, db0)"
  by (simp add: db0_ids api_update_user_def email_given_def upd_taken_def db0_emails
                http_exception_def)
     (simp add: db0_def)

text \<open>
  Claim C5, amended. For every \<^verbatim>\<open>PUT /users/{id}\<close> request where no user with that
  id exists, the response is 404 when the body has no email, an empty one, or one that no
  user holds, and 400 when the body's email is held by an existing user; the response is
  400 only when the new email in the body is already used by a different existing user
  id.
\<close>

theorem api_update_user_status:
  "(get_user_by_id db uid = None
      \<and> (\<forall>e. upd_email upd = Val e \<and> e \<noteq> [] \<longrightarrow> get_user_by_email db e = None)
      \<longrightarrow> api_update_user db uid upd now = (http_exception 404 ''User not found'', db))
   \<and> (get_user_by_id db uid = None \<and> upd_email upd = Val e \<and> e \<noteq> []
      \<and> get_user_by_email db e = Some u
      \<longrightarrow> api_update_user db uid upd now
          = (http_exception 400 ''Email already registered by another user'', db))
   \<and> (status_code (fst (api_update_user db uid upd now)) = 400
      \<longrightarrow> (\<exists>e u. upd_email upd = Val e \<and> u \<in> set db \<and> email u = e \<and> user_id u \<noteq> uid))"
proof -
  have missing: "api_update_user db uid upd now = (http_exception 404 ''User not found'', db)"
    if "get_user_by_id db uid = None"
      and "\<forall>e. upd_email upd = Val e \<and> e \<noteq> [] \<longrightarrow> get_user_by_email db e = None"
    using that
    by (auto simp: api_update_user_def email_given_def update_user_def
             split: field.splits option.splits)
  have taken: "api_update_user db uid upd now
          = (http_exception 400 ''Email already registered by another user'', db)"
    if none: "get_user_by_id db uid = None" and e: "upd_email upd = Val e" "e \<noteq> []"
      and u: "get_user_by_email db e = Some u"
  proof -
    from u have "u \<in> set db" by (simp add: get_user_by_email_Some)
    then have "user_id u \<noteq> uid" using none by (auto simp: get_user_by_id_None)
    then show ?thesis using e u by (simp add: api_update_user_def email_given_def)
  qed
  have only: "\<exists>e u. upd_email upd = Val e \<and> u \<in> set db \<and> email u = e \<and> user_id u \<noteq> uid"
    if "status_code (fst (api_update_user db uid upd now)) = 400"
  proof (cases "email_given (upd_email upd)")
    case None
    then show ?thesis using that
      by (auto simp: api_update_user_def http_exception_def server_error_def
               split: sum.splits option.splits)
  next
    case (Some e)
    then have e: "upd_email upd = Val e"
      by (auto simp: email_given_def split: field.splits if_splits)
    show ?thesis
    proof (cases "get_user_by_email db e")
      case None
      then show ?thesis using that Some
        by (auto simp: api_update_user_def http_exception_def server_error_def
                 split: sum.splits option.splits)
    next
      case (Some u)
      note u = this
      show ?thesis
      proof (cases "user_id u = uid")
        case True
        then show ?thesis using that u \<open>email_given (upd_email upd) = Some e\<close>
          by (auto simp: api_update_user_def http_exception_def server_error_def
                   split: sum.splits option.splits)
      next
        case False
        then show ?thesis using e get_user_by_email_Some [OF u] by blast
      qed
    qed
  qed
  show ?thesis using missing taken only by blast
qed

theorem api_update_user_status_witness:
  "get_user_by_id db0 999 = None
   \<and> upd_email upd_off = Unset
   \<and> api_update_user db0 999 upd_off 9 = (http_exception 404 ''User not found'', db0)
   \<and> upd_email upd_taken = Val ''a@x.com'' \<and> get_user_by_email db0 ''a@x.com'' = Some (db0 ! 0)
   \<and> api_update_user db0 999 upd_taken 9
       = (http_exception 400 ''Email already registered by another user'', db0)
   \<and> status_code (fst (api_update_user db0 2 upd_taken 9)) = 400
   \<and> (\<exists>e u. upd_email upd_taken = Val e \<and> u \<in> set db0 \<and> email u = e \<and> user_id u \<noteq> 2)"
proof -
  have a: "\<forall>e. upd_email upd_off = Val e \<and> e \<noteq> [] \<longrightarrow> get_user_by_email db0 e = None"
    by (simp add: upd_off_def)
  have b: "upd_email upd_taken = Val ''a@x.com''" by (simp add: upd_taken_def)
  have c: "status_code (fst (api_update_user db0 2 upd_taken 9)) = 400"
    by (simp add: api_update_user_def email_given_def upd_taken_def db0_emails http_exception_def)
       (simp add: db0_def)
  show ?thesis
    using api_update_user_status [of db0 999 upd_off 9]
      api_update_user_status [of db0 999 upd_taken 9 "''a@x.com''" "db0 ! 0"]
      api_update_user_status [of db0 2 upd_taken 9]
      db0_ids(4) db0_emails(1) a b c
    by (simp add: upd_off_def)
qed

section \<open>The returned user representation\<close>

text \<open>
  Claim C9. For every successful response of every user endpoint (create, get by id, get
  by email, update, and each element of the list that the list endpoint returns), the
  user representation has the fields \<^verbatim>\<open>id\<close>, \<^verbatim>\<open>email\<close>, \<^verbatim>\<open>is_active\<close>,
  \<^verbatim>\<open>created_at\<close> and \<^verbatim>\<open>updated_at\<close> and no others: neither
  \<^verbatim>\<open>hashed_password\<close> nor \<^verbatim>\<open>password\<close> is among them.
\<close>

theorem user_representation:
  "(status_code (fst (api_create_user db uc now)) < 300 \<longrightarrow>
      set (keys (body (fst (api_create_user db uc now)))) = {''id'', ''email'', ''is_active'', ''created_at'', ''updated_at''}
      \<and> ''hashed_password'' \<notin> set (keys (body (fst (api_create_user db uc now))))
      \<and> ''password'' \<notin> set (keys (body (fst (api_create_user db uc now)))))
   \<and> (status_code (api_get_user db uid) < 300 \<longrightarrow>
      set (keys (body (api_get_user db uid))) = {''id'', ''email'', ''is_active'', ''created_at'', ''updated_at''}
      \<and> ''hashed_password'' \<notin> set (keys (body (api_get_user db uid)))
      \<and> ''password'' \<notin> set (keys (body (api_get_user db uid))))
   \<and> (status_code (api_get_user_by_email db e) < 300 \<longrightarrow>
      set (keys (body (api_get_user_by_email db e))) = {''id'', ''email'', ''is_active'', ''created_at'', ''updated_at''}
      \<and> ''hashed_password'' \<notin> set (keys (body (api_get_user_by_email db e)))
      \<and> ''password'' \<notin> set (keys (body (api_get_user_by_email db e))))
   \<and> (status_code (fst (api_update_user db uid upd now)) < 300 \<longrightarrow>
      set (keys (body (fst (api_update_user db uid upd now)))) = {''id'', ''email'', ''is_active'', ''created_at'', ''updated_at''}
      \<and> ''hashed_password'' \<notin> set (keys (body (fst (api_update_user db uid upd now))))
      \<and> ''password'' \<notin> set (keys (body (fst (api_update_user db uid upd now)))))
   \<and> (status_code (api_get_users db skip limit) < 300 \<longrightarrow>
      (\<exists>m js t. body (api_get_users db skip limit)
                  = JObj [(''message'', JStr m), (''users'', JList js), (''total'', JInt t)]
          \<and> (\<forall>j\<in>set js. set (keys j) = {''id'', ''email'', ''is_active'', ''created_at'', ''updated_at''}
                \<and> ''hashed_password'' \<notin> set (keys j) \<and> ''password'' \<notin> set (keys j))))"
proof -
  have fields: "set (keys (user_json u)) = {''id'', ''email'', ''is_active'', ''created_at'', ''updated_at''}
      \<and> ''hashed_password'' \<notin> set (keys (user_json u))
      \<and> ''password'' \<notin> set (keys (user_json u))" for u
    by (auto simp: keys_user_json)
  have create: "\<exists>u. body (fst (api_create_user db uc now)) = user_json u"
    if "status_code (fst (api_create_user db uc now)) < 300"
    using that
    by (auto simp: api_create_user_def http_exception_def server_error_def
             split: option.splits sum.splits)
  have by_id: "\<exists>u. body (api_get_user db uid) = user_json u"
    if "status_code (api_get_user db uid) < 300"
    using that by (auto simp: api_get_user_def http_exception_def split: option.splits)
  have by_email: "\<exists>u. body (api_get_user_by_email db e) = user_json u"
    if "status_code (api_get_user_by_email db e) < 300"
    using that by (auto simp: api_get_user_by_email_def http_exception_def split: option.splits)
  have update: "\<exists>u. body (fst (api_update_user db uid upd now)) = user_json u"
    if "status_code (fst (api_update_user db uid upd now)) < 300"
    using that
    by (auto simp: api_update_user_def Let_def http_exception_def server_error_def
             split: option.splits sum.splits if_splits)
  have list: "(\<exists>m js t. body (api_get_users db skip limit)
                    = JObj [(''message'', JStr m), (''users'', JList js), (''total'', JInt t)]
            \<and> (\<forall>j\<in>set js. set (keys j) = {''id'', ''email'', ''is_active'', ''created_at'', ''updated_at''}
                  \<and> ''hashed_password'' \<notin> set (keys j) \<and> ''password'' \<notin> set (keys j)))"
    if "status_code (api_get_users db skip limit) < 300"
  proof -
    from that have "body (api_get_users db skip limit)
        = JObj [(''message'', JStr (''Retrieved '' @ str_nat (length (get_users db skip limit)) @ '' users'')),
                (''users'', JList (map user_json (get_users db skip limit))),
                (''total'', JInt (int (get_users_count db)))]"
      by (auto simp: api_get_users_def Let_def validation_error_def split: if_splits)
    moreover have "\<forall>j\<in>set (map user_json (get_users db skip limit)).
        set (keys j) = {''id'', ''email'', ''is_active'', ''created_at'', ''updated_at''}
        \<and> ''hashed_password'' \<notin> set (keys j) \<and> ''password'' \<notin> set (keys j)"
      using fields by auto
    ultimately show ?thesis by blast
  qed
  show ?thesis
  proof (intro conjI impI)
    assume "status_code (fst (api_create_user db uc now)) < 300"
    then obtain u where "body (fst (api_create_user db uc now)) = user_json u"
      using create by blast
    then show "set (keys (body (fst (api_create_user db uc now)))) = {''id'', ''email'', ''is_active'', ''created_at'', ''updated_at''}"
      and "''hashed_password'' \<notin> set (keys (body (fst (api_create_user db uc now))))"
      and "''password'' \<notin> set (keys (body (fst (api_create_user db uc now))))"
      using fields [of u] by simp_all
  next
    assume "status_code (api_get_user db uid) < 300"
    then obtain u where "body (api_get_user db uid) = user_json u"
      using by_id by blast
    then show "set (keys (body (api_get_user db uid))) = {''id'', ''email'', ''is_active'', ''created_at'', ''updated_at''}"
      and "''hashed_password'' \<notin> set (keys (body (api_get_user db uid)))"
      and "''password'' \<notin> set (keys (body (api_get_user db uid)))"
      using fields [of u] by simp_all
  next
    assume "status_code (api_get_user_by_email db e) < 300"
    then obtain u where "body (api_get_user_by_email db e) = user_json u"
      using by_email by blast
    then show "set (keys (body (api_get_user_by_email db e))) = {''id'', ''email'', ''is_active'', ''created_at'', ''updated_at''}"
      and "''hashed_password'' \<notin> set (keys (body (api_get_user_by_email db e)))"
      and "''password'' \<notin> set (keys (body (api_get_user_by_email db e)))"
      using fields [of u] by simp_all
  next
    assume "status_code (fst (api_update_user db uid upd now)) < 300"
    then obtain u where "body (fst (api_update_user db uid upd now)) = user_json u"
      using update by blast
    then show "set (keys (body (fst (api_update_user db uid upd now)))) = {''id'', ''email'', ''is_active'', ''created_at'', ''updated_at''}"
      and "''hashed_password'' \<notin> set (keys (body (fst (api_update_user db uid upd now))))"
      and "''password'' \<notin> set (keys (body (fst (api_update_user db uid upd now))))"
      using fields [of u] by simp_all
  next
    assume "status_code (api_get_users db skip limit) < 300"
    then show "(\<exists>m js t. body (api_get_users db skip limit)
                      = JObj [(''message'', JStr m), (''users'', JList js), (''total'', JInt t)]
              \<and> (\<forall>j\<in>set js. set (keys j) = {''id'', ''email'', ''is_active'', ''created_at'', ''updated_at''}
                    \<and> ''hashed_password'' \<notin> set (keys j) \<and> ''password'' \<notin> set (keys j)))"
      by (rule list)
  qed
qed

theorem user_representation_witness:
  "status_code (fst (api_create_user [] uc_a 3)) = 201
   \<and> body (fst (api_create_user [] uc_a 3)) = user_json row_a
   \<and> status_code (api_get_user db0 1) = 200
   \<and> status_code (api_get_user_by_email db0 ''a@x.com'') = 200
   \<and> status_code (fst (api_update_user db0 2 upd_empty 9)) = 200
   \<and> status_code (api_get_users db0 1 2) = 200
   \<and> set (keys (body (fst (api_create_user [] uc_a 3)))) = {''id'', ''email'', ''is_active'', ''created_at'', ''updated_at''}
   \<and> set (keys (body (api_get_user db0 1))) = {''id'', ''email'', ''is_active'', ''created_at'', ''updated_at''}
   \<and> set (keys (body (api_get_user_by_email db0 ''a@x.com''))) = {''id'', ''email'', ''is_active'', ''created_at'', ''updated_at''}
   \<and> set (keys (body (fst (api_update_user db0 2 upd_empty 9)))) = {''id'', ''email'', ''is_active'', ''created_at'', ''updated_at''}
   \<and> ''hashed_password'' \<notin> set (keys (body (api_get_user db0 1)))
   \<and> (\<exists>m js t. body (api_get_users db0 1 2)
                  = JObj [(''message'', JStr m), (''users'', JList js), (''total'', JInt t)]
          \<and> (\<forall>j\<in>set js. set (keys j) = {''id'', ''email'', ''is_active'', ''created_at'', ''updated_at''}
                \<and> ''hashed_password'' \<notin> set (keys j) \<and> ''password'' \<notin> set (keys j)))
   \<and> body (api_get_user db0 1)
        = JObj [(''email'', JStr ''a@x.com''), (''id'', JInt 1), (''is_active'', JBool True),
                (''created_at'', JTime 3), (''updated_at'', JNull)]"
proof -
  have c: "api_create_user [] uc_a 3 = (\<lparr>status_code = 201, body = user_json row_a\<rparr>, [row_a])"
    using create_user_uc_a by (simp add: api_create_user_def get_user_by_email_def)
  have g: "api_get_user db0 1 = \<lparr>status_code = 200, body = user_json (db0 ! 0)\<rparr>"
    by (simp add: api_get_user_def db0_ids)
  have e: "api_get_user_by_email db0 ''a@x.com'' = \<lparr>status_code = 200, body = user_json (db0 ! 0)\<rparr>"
    by (simp add: api_get_user_by_email_def db0_emails)
  have u0: "update_user db0 2 upd_empty 9 = Inr (Some (db0 ! 1), db0)"
    by (simp add: db0_ids update_user_def model_dump_def hash_update_data_def commit_update_def
                  setattrs_def field_or_def upd_empty_def)
  have u: "api_update_user db0 2 upd_empty 9 = (\<lparr>status_code = 200, body = user_json (db0 ! 1)\<rparr>, db0)"
    using u0 by (simp add: api_update_user_def email_given_def upd_empty_def)
  have l: "status_code (api_get_users db0 1 2) = 200"
    by (simp add: api_get_users_def Let_def)
  have j: "user_json (db0 ! 0)
        = JObj [(''email'', JStr ''a@x.com''), (''id'', JInt 1), (''is_active'', JBool True),
                (''created_at'', JTime 3), (''updated_at'', JNull)]"
    by (simp add: user_json_def db0_def)
  have s: "status_code (fst (api_create_user [] uc_a 3)) = 201" "status_code (api_get_user db0 1) = 200"
    "status_code (api_get_user_by_email db0 ''a@x.com'') = 200"
    "status_code (fst (api_update_user db0 2 upd_empty 9)) = 200"
    "body (fst (api_create_user [] uc_a 3)) = user_json row_a"
    by (simp_all add: c g e u)
  have b: "body (api_get_user db0 1)
        = JObj [(''email'', JStr ''a@x.com''), (''id'', JInt 1), (''is_active'', JBool True),
                (''created_at'', JTime 3), (''updated_at'', JNull)]"
    by (simp add: g j)
  show ?thesis
    using user_representation [where db = "[]" and uc = uc_a and now = 3]
       user_representation [where db = db0 and uid = 1 and e = "''a@x.com''" and skip = 1
         and limit = 2]
       user_representation [where db = db0 and uid = 2 and upd = upd_empty and now = 9]
       s l b
    by simp
qed

section \<open>Listing users\<close>

text \<open>
  Claim C7. \<^verbatim>\<open>get_users\<close> returns the stored records in insertion order, which is
  primary-key order (a create appends its record, and ids grow along the table), with
  \<^verbatim>\<open>skip\<close> and \<^verbatim>\<open>limit\<close> applied: record \<open>i\<close> of the page is record
  \<open>skip + i\<close> of the table. The total that \<^verbatim>\<open>GET /users/\<close> returns with the page
  is the number of all records, whatever \<^verbatim>\<open>skip\<close> and \<^verbatim>\<open>limit\<close> are. For a
  table of N users, the pages \<open>(skip = 0, limit = 2)\<close> and \<open>(skip = 2, limit = 2)\<close>
  have disjoint id sets whose union has \<open>min 4 N\<close> elements.
\<close>

theorem get_users_pagination:
  "(wf_db db \<longrightarrow> sorted_wrt (<) (map user_id (get_users db skip limit)))
   \<and> (0 \<le> skip \<and> 0 \<le> limit \<longrightarrow>
        length (get_users db skip limit) = min (nat limit) (length db - nat skip)
        \<and> (\<forall>i < length (get_users db skip limit). get_users db skip limit ! i = db ! (nat skip + i)))
   \<and> (create_user db uc now = Inr (row, db') \<longrightarrow> db' = db @ [row])
   \<and> get_users_count db = length db
   \<and> (0 \<le> skip \<and> 1 \<le> limit \<and> limit \<le> 1000 \<longrightarrow>
        api_get_users db skip limit =
          \<lparr>status_code = 200,
           body = JObj [(''message'', JStr (''Retrieved '' @ str_nat (length (get_users db skip limit)) @ '' users'')),
                        (''users'', JList (map user_json (get_users db skip limit))),
                        (''total'', JInt (int (length db)))]\<rparr>)
   \<and> (wf_db db \<longrightarrow>
        set (map user_id (get_users db 0 2)) \<inter> set (map user_id (get_users db 2 2)) = {}
        \<and> card (set (map user_id (get_users db 0 2)) \<union> set (map user_id (get_users db 2 2)))
            = min 4 (length db))"
proof -
  have order: "sorted_wrt (<) (map user_id (get_users db skip limit))" if "wf_db db"
  proof -
    have "sorted_wrt (<) (map user_id (drop (nat skip) db))"
      using that by (simp add: wf_db_def sorted_wrt_drop flip: drop_map)
    then show ?thesis
      by (simp add: get_users_def Let_def sorted_wrt_take flip: take_map)
  qed
  have window: "length (get_users db skip limit) = min (nat limit) (length db - nat skip)
        \<and> (\<forall>i < length (get_users db skip limit). get_users db skip limit ! i = db ! (nat skip + i))"
    if "0 \<le> skip \<and> 0 \<le> limit"
    using that by (auto simp: get_users_def Let_def min_def)
  have append: "db' = db @ [row]" if "create_user db uc now = Inr (row, db')"
    using that by (auto simp: create_user_def insert_user_def Let_def split: if_splits)
  have api: "api_get_users db skip limit =
          \<lparr>status_code = 200,
           body = JObj [(''message'', JStr (''Retrieved '' @ str_nat (length (get_users db skip limit)) @ '' users'')),
                        (''users'', JList (map user_json (get_users db skip limit))),
                        (''total'', JInt (int (length db)))]\<rparr>"
    if "0 \<le> skip \<and> 1 \<le> limit \<and> limit \<le> 1000"
    using that by (simp add: api_get_users_def Let_def get_users_count_def)
  have pages: "set (map user_id (get_users db 0 2)) \<inter> set (map user_id (get_users db 2 2)) = {}
        \<and> card (set (map user_id (get_users db 0 2)) \<union> set (map user_id (get_users db 2 2)))
            = min 4 (length db)"
    if wf: "wf_db db"
  proof -
    have p1: "get_users db 0 2 = take 2 db" and p2: "get_users db 2 2 = take 2 (drop 2 db)"
      by (simp_all add: get_users_def)
    have "map user_id (take 2 db) @ map user_id (take 2 (drop 2 db)) = map user_id (take 4 db)"
      by (simp add: pages_append flip: map_append)
    moreover have "distinct (map user_id (take 4 db))"
      using wf_db_distinct_ids [OF wf] by (simp add: distinct_take flip: take_map)
    ultimately have d: "distinct (map user_id (take 2 db) @ map user_id (take 2 (drop 2 db)))"
      by simp
    then have "set (map user_id (take 2 db)) \<inter> set (map user_id (take 2 (drop 2 db))) = {}"
      by simp
    moreover have "card (set (map user_id (take 2 db) @ map user_id (take 2 (drop 2 db))))
                   = length (map user_id (take 2 db) @ map user_id (take 2 (drop 2 db)))"
      using d by (rule distinct_card)
    then have "card (set (map user_id (take 2 db)) \<union> set (map user_id (take 2 (drop 2 db))))
               = min 4 (length db)"
      by (simp add: min_def) linarith?
    ultimately show ?thesis by (simp only: p1 p2) 
  qed
  show ?thesis using order window append api pages by (simp add: get_users_count_def)
qed

theorem get_users_pagination_witness:
  "wf_db db0 \<and> get_users db0 1 2 = [db0 ! 1, db0 ! 2]
   \<and> sorted_wrt (<) (map user_id (get_users db0 1 2))
   \<and> get_users_count db0 = 3
   \<and> create_user [] uc_a 3 = Inr (row_a, [] @ [row_a])
   \<and> api_get_users db0 1 2 =
        \<lparr>status_code = 200,
         body = JObj [(''message'', JStr ''Retrieved 2 users''),
                      (''users'', JList [user_json (db0 ! 1), user_json (db0 ! 2)]),
                      (''total'', JInt 3)]\<rparr>
   \<and> set (map user_id (get_users db0 0 2)) \<inter> set (map user_id (get_users db0 2 2)) = {}
   \<and> card (set (map user_id (get_users db0 0 2)) \<union> set (map user_id (get_users db0 2 2))) = 3"
proof -
  have page: "get_users db0 1 2 = [db0 ! 1, db0 ! 2]"
    by (simp add: get_users_def db0_def)
  note ok = create_user_uc_a
  have len: "length db0 = 3" by (simp add: db0_def)
  show ?thesis
    using get_users_pagination [of db0 1 2] get_users_pagination [of "[]" 0 1 uc_a 3 row_a "[row_a]"]
      wf_db0 page ok len
    by simp
qed

section \<open>Deleting a user\<close>

text \<open>
  Claim C8. For every id, \<^verbatim>\<open>delete_user\<close> returns true exactly when a record with
  that id existed, and the table afterwards is the old one without the records of that
  id; on an unknown id it returns false and leaves the table unchanged; after a delete,
  looking the id up gives nothing.
\<close>

theorem delete_user_spec:
  "fst (delete_user db uid) = (get_user_by_id db uid \<noteq> None)
   \<and> snd (delete_user db uid) = filter (\<lambda>u. user_id u \<noteq> uid) db
   \<and> (get_user_by_id db uid = None \<longrightarrow> delete_user db uid = (False, db))
   \<and> get_user_by_id (snd (delete_user db uid)) uid = None"
proof -
  have gone: "get_user_by_id (filter (\<lambda>u. user_id u \<noteq> uid) db) uid = None"
    by (auto simp: get_user_by_id_None)
  have same: "get_user_by_id db uid = None \<Longrightarrow> filter (\<lambda>u. user_id u \<noteq> uid) db = db"
    by (auto simp: get_user_by_id_None intro: filter_True)
  show ?thesis
  proof (cases "get_user_by_id db uid")
    case None
    then show ?thesis using gone same by (simp add: delete_user_def)
  next
    case (Some u)
    then have "user_id u = uid" by (simp add: get_user_by_id_Some)
    then show ?thesis using Some gone by (simp add: delete_user_def)
  qed
qed

theorem delete_user_spec_witness:
  "get_user_by_id db0 7 = None \<and> delete_user db0 7 = (False, db0)
   \<and> fst (delete_user db0 2) \<and> get_user_by_id (snd (delete_user db0 2)) 2 = None"
  using delete_user_spec [of db0 7] delete_user_spec [of db0 2]
  by (simp add: db0_def get_user_by_id_def)



end
